theory Spec2Isabelle
  imports Main "HOL-Library.Sublist"
begin

section \<open>Values exchanged with the providers\<close>

text \<open>
  The script \<^verbatim>\<open>app.py\<close> sends a JSON document to one of three chat-completion
  endpoints and reads a text out of the JSON document that comes back. A decoded JSON
  document is a Python value: \<^verbatim>\<open>None\<close>, a bool, a number, a \<^verbatim>\<open>str\<close>, a list
  or a dict with string keys. A dict is kept as an association list read with
  \<^const>\<open>map_of\<close>; the literal of a float is kept as text, since the script never
  computes with it.
\<close>

datatype json =
    JNull
  | JBool bool
  | JInt int
  | JFloat string
  | JStr string
  | JArr "json list"
  | JObj "(string \<times> json) list"

text \<open>
  What \<^verbatim>\<open>requests.post\<close> is given (URL, headers in the order of the dict literal, the
  \<^verbatim>\<open>json=\<close> payload), and what it returns: the status code and the body as
  \<^verbatim>\<open>response.json()\<close> decodes it, \<open>None\<close> standing for a body that is not JSON.
\<close>

record request =
  url :: string
  headers :: "(string \<times> string) list"
  json_data :: json

record response =
  status_code :: nat
  body :: "json option"

text \<open>A subscript is a string key or a position.\<close>

datatype key = SKey string | IKey nat

text \<open>
  The exceptions the script can meet, all of them subclasses of \<^verbatim>\<open>Exception\<close>:
  the ones Python raises on a failed subscript, the ones of \<^verbatim>\<open>requests\<close>
  (\<open>HTTPError\<close> carries the response it was raised for, \<open>RequestException\<close> is a
  call that could not complete: DNS, TLS, reset, timeout), and the one
  \<^verbatim>\<open>st.download_button\<close> raises for data that is neither text nor bytes nor a file.
\<close>

datatype exn =
    KeyError key
  | IndexError
  | TypeError
  | JSONDecodeError
  | HTTPError response
  | RequestException string
  | StreamlitAPIException

section \<open>Python subscripts on decoded JSON\<close>

text \<open>
  \<^verbatim>\<open>v[k]\<close>: a dict looks the key up and raises \<^verbatim>\<open>KeyError\<close> when it is missing
  (a decoded dict has string keys only, so a position is always missing); a list and a
  \<^verbatim>\<open>str\<close> take a position and raise \<^verbatim>\<open>IndexError\<close> out of range and
  \<^verbatim>\<open>TypeError\<close> on a string key; every other value raises \<^verbatim>\<open>TypeError\<close>.
\<close>

fun getitem :: "json \<Rightarrow> key \<Rightarrow> exn + json" where
  "getitem (JObj kvs) (SKey k) =
     (case map_of kvs k of None \<Rightarrow> Inl (KeyError (SKey k)) | Some v \<Rightarrow> Inr v)"
| "getitem (JObj kvs) (IKey i) = Inl (KeyError (IKey i))"
| "getitem (JArr xs) (IKey i) = (if i < length xs then Inr (xs ! i) else Inl IndexError)"
| "getitem (JArr xs) (SKey k) = Inl TypeError"
| "getitem (JStr s) (IKey i) = (if i < length s then Inr (JStr [s ! i]) else Inl IndexError)"
| "getitem (JStr s) (SKey k) = Inl TypeError"
| "getitem JNull k = Inl TypeError"
| "getitem (JBool b) k = Inl TypeError"
| "getitem (JInt n) k = Inl TypeError"
| "getitem (JFloat f) k = Inl TypeError"

text \<open>A chain of subscripts \<^verbatim>\<open>v[k1][k2]...\<close>, stopping at the first exception.\<close>

fun subscript :: "exn + json \<Rightarrow> key list \<Rightarrow> exn + json" where
  "subscript r [] = r"
| "subscript (Inl e) (k # ks) = Inl e"
| "subscript (Inr v) (k # ks) = subscript (getitem v k) ks"

text \<open>
  \<^verbatim>\<open>response.raise_for_status()\<close> raises for a client error (400 to 499) and for a
  server error (500 to 599), and returns for every other status.
\<close>

definition raise_for_status :: "response \<Rightarrow> exn + unit" where
  "raise_for_status r =
     (if 400 \<le> status_code r \<and> status_code r < 600 then Inl (HTTPError r) else Inr ())"

text \<open>\<^verbatim>\<open>response.json()\<close>.\<close>

definition response_json :: "response \<Rightarrow> exn + json" where
  "response_json r = (case body r of None \<Rightarrow> Inl JSONDecodeError | Some v \<Rightarrow> Inr v)"

section \<open>What a run of the script leaves behind\<close>

text \<open>
  A run is observed through the events it causes, in the order it causes them: a network
  call issued and the outcome it came back with, and the calls into the user interface.
  An element is drawn in the main area, in the sidebar or in one of the columns of the
  comparison. Labels are given without their pictographs.
\<close>

datatype slot = Main | Sidebar | Col nat

datatype event =
    Post request
  | Reply "exn + response"
  | Display slot string
  | Error slot string "exn option"
  | Code slot json
  | Download slot string json string

text \<open>
  The surroundings of a run: the secrets store, and the network. What a call comes back
  with may depend on everything that happened before it, so the network is a function of
  the events so far and of the request; \<open>Inl e\<close> is \<^verbatim>\<open>requests.post\<close> raising
  \<open>e\<close>.
\<close>

record env =
  secrets :: "string \<rightharpoonup> string"
  post :: "event list \<Rightarrow> request \<Rightarrow> exn + response"

text \<open>\<^verbatim>\<open>st.secrets[name]\<close>.\<close>

definition secret :: "env \<Rightarrow> string \<Rightarrow> exn + string" where
  "secret E name = (case secrets E name of None \<Rightarrow> Inl (KeyError (SKey name)) | Some v \<Rightarrow> Inr v)"

text \<open>
  \<^verbatim>\<open>requests.post(url, headers=headers, json=data)\<close>: the call is issued, blocks, and
  comes back with a response or an exception.
\<close>

definition requests_post :: "env \<Rightarrow> request \<Rightarrow> event list \<Rightarrow> (exn + response) \<times> event list" where
  "requests_post E rq tr = (let out = post E tr rq in (out, tr @ [Post rq, Reply out]))"

section \<open>The three API clients\<close>

definition user_message :: "string \<Rightarrow> json" where
  "user_message prompt = JArr [JObj [(''role'', JStr ''user''), (''content'', JStr prompt)]]"

definition claude_request :: "string \<Rightarrow> string \<Rightarrow> request" where
  "claude_request api_key prompt =
     \<lparr> url = ''https://api.anthropic.com/v1/messages'',
       headers = [(''x-api-key'', api_key), (''content-type'', ''application/json'')],
       json_data = JObj [(''model'', JStr ''claude-3-5-sonnet-20241022''),
                         (''max_tokens'', JInt 1500),
                         (''messages'', user_message prompt)] \<rparr>"

definition gpt4o_request :: "string \<Rightarrow> string \<Rightarrow> request" where
  "gpt4o_request api_key prompt =
     \<lparr> url = ''https://api.openai.com/v1/chat/completions'',
       headers = [(''Authorization'', ''Bearer '' @ api_key),
                  (''Content-Type'', ''application/json'')],
       json_data = JObj [(''model'', JStr ''gpt-4o''), (''messages'', user_message prompt)] \<rparr>"

definition deepseek_request :: "string \<Rightarrow> string \<Rightarrow> request" where
  "deepseek_request api_key prompt =
     \<lparr> url = ''https://api.deepseek.com/v1/chat/completions'',
       headers = [(''Authorization'', ''Bearer '' @ api_key),
                  (''Content-Type'', ''application/json'')],
       json_data = JObj [(''model'', JStr ''deepseek-chat''),
                         (''messages'', user_message prompt)] \<rparr>"

text \<open>
  The last two lines of each client: \<^verbatim>\<open>response.raise_for_status()\<close>, then the
  subscripts on \<^verbatim>\<open>response.json()\<close>.
\<close>

definition read_text :: "key list \<Rightarrow> response \<Rightarrow> exn + json" where
  "read_text path r =
     (case raise_for_status r of
        Inl e \<Rightarrow> Inl e
      | Inr _ \<Rightarrow> subscript (response_json r) path)"

definition claude_path :: "key list" where
  "claude_path = [SKey ''content'', IKey 0, SKey ''text'']"

definition chat_path :: "key list" where
  "chat_path = [SKey ''choices'', IKey 0, SKey ''message'', SKey ''content'']"

text \<open>
  The headers are built first, so a missing secret raises before anything is sent. The
  value returned is whatever the subscripts end on: Python does not check the annotation
  \<^verbatim>\<open>-> str\<close>.
\<close>

definition call_claude :: "env \<Rightarrow> string \<Rightarrow> event list \<Rightarrow> (exn + json) \<times> event list" where
  "call_claude E prompt tr =
     (case secret E ''ANTHROPIC_API_KEY'' of
        Inl e \<Rightarrow> (Inl e, tr)
      | Inr api_key \<Rightarrow>
          (case requests_post E (claude_request api_key prompt) tr of
             (Inl e, tr') \<Rightarrow> (Inl e, tr')
           | (Inr r, tr') \<Rightarrow> (read_text claude_path r, tr')))"

definition call_gpt4o :: "env \<Rightarrow> string \<Rightarrow> event list \<Rightarrow> (exn + json) \<times> event list" where
  "call_gpt4o E prompt tr =
     (case secret E ''OPENAI_API_KEY'' of
        Inl e \<Rightarrow> (Inl e, tr)
      | Inr api_key \<Rightarrow>
          (case requests_post E (gpt4o_request api_key prompt) tr of
             (Inl e, tr') \<Rightarrow> (Inl e, tr')
           | (Inr r, tr') \<Rightarrow> (read_text chat_path r, tr')))"

definition call_deepseek :: "env \<Rightarrow> string \<Rightarrow> event list \<Rightarrow> (exn + json) \<times> event list" where
  "call_deepseek E prompt tr =
     (case secret E ''DEEPSEEK_API_KEY'' of
        Inl e \<Rightarrow> (Inl e, tr)
      | Inr api_key \<Rightarrow>
          (case requests_post E (deepseek_request api_key prompt) tr of
             (Inl e, tr') \<Rightarrow> (Inl e, tr')
           | (Inr r, tr') \<Rightarrow> (read_text chat_path r, tr')))"

section \<open>The meta-prompt template\<close>

text \<open>
  A format string is literal text with replacement fields. \<^verbatim>\<open>str.format\<close> puts the
  keyword argument of each field in its place, as it is, and raises \<^verbatim>\<open>KeyError\<close> for
  a field with no argument.
\<close>

datatype piece = Lit string | Field string

fun format :: "piece list \<Rightarrow> (string \<times> string) list \<Rightarrow> exn + string" where
  "format [] kwargs = Inr []"
| "format (Lit s # ps) kwargs =
     (case format ps kwargs of Inl e \<Rightarrow> Inl e | Inr t \<Rightarrow> Inr (s @ t))"
| "format (Field f # ps) kwargs =
     (case map_of kwargs f of
        None \<Rightarrow> Inl (KeyError (SKey f))
      | Some v \<Rightarrow> (case format ps kwargs of Inl e \<Rightarrow> Inl e | Inr t \<Rightarrow> Inr (v @ t)))"

definition template_head :: string where
  \<open>template_head = ''\<newline>You are an Expert AI Prompt Engineer specializing in generating highly effective prompts for coding and development tasks.\<newline>\<newline>Your task is to create a detailed, structured prompt that I can use with any AI model to solve the following problem:\<newline>\<newline>**PROJECT IDEA:**\<newline>''\<close>

definition template_mid :: string where
  \<open>template_mid = ''\<newline>\<newline>**REQUIREMENTS:**\<newline>''\<close>

definition template_tail :: string where
  \<open>template_tail = ''\<newline>\<newline>Please follow this exact structure for the output prompt:\<newline>\<newline>---\<newline>**Role:** [Describe the expert role, e.g., "Senior Full-Stack Developer with 10+ years of experience in React and Node.js"]\<newline>**Context:** [Briefly explain the project, tech stack, and constraints]\<newline>**Task Instructions:** \<newline>1. [Step 1]\<newline>2. [Step 2]\<newline>...\<newline>**Constraints:**\<newline>- Must include [specific requirement 1]\<newline>- Must avoid [specific restriction 1]\<newline>...\<newline>**Output Format:**\<newline>- Provide complete, runnable code blocks.\<newline>- Include error handling.\<newline>- Add comments explaining key sections.\<newline>- Do NOT use placeholders like "// ...".\<newline>---\<newline>''\<close>

definition META_PROMPT_TEMPLATE :: "piece list" where
  "META_PROMPT_TEMPLATE =
     [Lit template_head, Field ''project_idea'', Lit template_mid, Field ''requirements'',
      Lit template_tail]"

text \<open>The two places where the template is filled in: the button handler and the comparison.\<close>

definition meta_prompt :: "string \<Rightarrow> string \<Rightarrow> exn + string" where
  "meta_prompt project_idea requirements =
     format META_PROMPT_TEMPLATE
       [(''project_idea'', project_idea),
        (''requirements'', if requirements \<noteq> [] then requirements else ''No extra requirements.'')]"

definition compare_prompt :: "string \<Rightarrow> string \<Rightarrow> exn + string" where
  "compare_prompt project_idea requirements =
     format META_PROMPT_TEMPLATE
       [(''project_idea'', project_idea), (''requirements'', requirements)]"

section \<open>The script\<close>

text \<open>
  What the widgets return in one run of the script: the entry chosen in the select box,
  the two text areas, whether the button was pressed, whether the box is checked.
\<close>

record inputs =
  model :: string
  project_idea :: string
  requirements :: string
  button :: bool
  compare :: bool

definition model_options :: "string list" where
  "model_options =
     [''Claude 3.5 Sonnet (Best for Logic)'', ''GPT-4o (Best for Creativity)'',
      ''DeepSeek V3 (Best for Syntax)'']"

text \<open>
  How a statement ends: it falls through to the next one, it raises, or it is
  \<^verbatim>\<open>st.stop()\<close>, which ends the run and is not caught by \<^verbatim>\<open>except Exception\<close>.
\<close>

datatype control = Done | Raised exn | Stopped

definition then_run ::
  "control \<times> event list \<Rightarrow> (event list \<Rightarrow> control \<times> event list) \<Rightarrow> control \<times> event list" where
  "then_run r f = (case r of (Done, tr) \<Rightarrow> f tr | _ \<Rightarrow> r)"

text \<open>\<^verbatim>\<open>try: ... except Exception as e: handler\<close>.\<close>

definition try_except ::
  "control \<times> event list \<Rightarrow> (exn \<Rightarrow> event list \<Rightarrow> control \<times> event list) \<Rightarrow> control \<times> event list" where
  "try_except r handler = (case r of (Raised e, tr) \<Rightarrow> handler e tr | _ \<Rightarrow> r)"

text \<open>
  \<^verbatim>\<open>st.download_button\<close> takes text, bytes or an open file as its data; a value decoded
  from JSON is accepted when it is a \<^verbatim>\<open>str\<close>.
\<close>

definition download_button ::
  "slot \<Rightarrow> string \<Rightarrow> json \<Rightarrow> string \<Rightarrow> event list \<Rightarrow> control \<times> event list" where
  "download_button sl label dat file_name tr =
     (case dat of
        JStr t \<Rightarrow> (Done, tr @ [Download sl label dat file_name])
      | _ \<Rightarrow> (Raised StreamlitAPIException, tr))"

text \<open>Everything the script draws before the button handler.\<close>

definition page_top :: "event list" where
  "page_top =
     [Display Main ''**AI Prompt Generator for Coding**'',
      Display Main ''\<newline>Generate **highly accurate, structured prompts** optimized for coding tasks.  \<newline>Choose an AI model, describe your task, and get a ready-to-use prompt!\<newline>'',
      Display Sidebar ''Select AI Model'',
      Display Sidebar ''Choose the AI model to generate your prompt:'',
      Display Main ''Describe Your Coding Task'',
      Display Main ''Enter your project idea or coding task:'',
      Display Main ''Additional requirements (optional):'',
      Display Main ''Generate Prompt'']"

text \<open>
  One branch of the dispatch on the model name:
  \<^verbatim>\<open>try: result = call(meta_prompt)\<close>,
  \<^verbatim>\<open>except Exception as e: st.error(f"...{e}"); st.stop()\<close>.
\<close>

definition call_or_stop ::
  "(string \<Rightarrow> event list \<Rightarrow> (exn + json) \<times> event list) \<Rightarrow> string \<Rightarrow> string \<Rightarrow> event list
     \<Rightarrow> (control + json) \<times> event list" where
  "call_or_stop call label prompt tr =
     (case call prompt tr of
        (Inl e, tr') \<Rightarrow> (Inl Stopped, tr' @ [Error Main label (Some e)])
      | (Inr result, tr') \<Rightarrow> (Inr result, tr'))"

definition call_selected ::
  "env \<Rightarrow> string \<Rightarrow> string \<Rightarrow> event list \<Rightarrow> (control + json) \<times> event list" where
  "call_selected E mdl prompt tr =
     (if sublist ''Claude'' mdl then
        call_or_stop (call_claude E) ''Error with Claude API: '' prompt tr
      else if sublist ''GPT'' mdl then
        call_or_stop (call_gpt4o E) ''Error with GPT-4o API: '' prompt tr
      else
        call_or_stop (call_deepseek E) ''Error with DeepSeek API: '' prompt tr)"

text \<open>The handler of the button.\<close>

definition generate_prompt :: "env \<Rightarrow> inputs \<Rightarrow> event list \<Rightarrow> control \<times> event list" where
  "generate_prompt E inp tr =
     (if \<not> button inp then (Done, tr)
      else if project_idea inp = [] then
        (Done, tr @ [Error Main ''Please enter a project idea.'' None])
      else
        (let tr1 = tr @ [Display Main ''Crafting your perfect prompt...''] in
         case meta_prompt (project_idea inp) (requirements inp) of
           Inl e \<Rightarrow> (Raised e, tr1)
         | Inr prompt \<Rightarrow>
             (case call_selected E (model inp) prompt tr1 of
                (Inl c, tr2) \<Rightarrow> (c, tr2)
              | (Inr result, tr2) \<Rightarrow>
                  download_button Main ''Copy Prompt to Clipboard'' result ''ai_prompt.md''
                    (tr2 @ [Display Main ''Generated Prompt'', Code Main result]))))"

text \<open>
  One column of the comparison: the body of the \<^verbatim>\<open>try\<close>, and the \<^verbatim>\<open>try\<close>
  with its handler, which writes the exception into the column.
\<close>

definition column_body ::
  "(string \<Rightarrow> event list \<Rightarrow> (exn + json) \<times> event list) \<Rightarrow> nat \<Rightarrow> string \<Rightarrow> string \<Rightarrow> inputs
     \<Rightarrow> event list \<Rightarrow> control \<times> event list" where
  "column_body call i title file_name inp tr =
     (let tr1 = tr @ [Display (Col i) title] in
      case compare_prompt (project_idea inp) (requirements inp) of
        Inl e \<Rightarrow> (Raised e, tr1)
      | Inr prompt \<Rightarrow>
          (case call prompt tr1 of
             (Inl e, tr2) \<Rightarrow> (Raised e, tr2)
           | (Inr result, tr2) \<Rightarrow>
               download_button (Col i) ''Download'' result file_name
                 (tr2 @ [Code (Col i) result])))"

definition claude_column :: "env \<Rightarrow> inputs \<Rightarrow> event list \<Rightarrow> control \<times> event list" where
  "claude_column E inp tr =
     try_except (column_body (call_claude E) 0 ''Claude 3.5 Sonnet'' ''claude_prompt.md'' inp tr)
       (\<lambda>e tr'. (Done, tr' @ [Error (Col 0) ''Claude Error: '' (Some e)]))"

definition gpt_column :: "env \<Rightarrow> inputs \<Rightarrow> event list \<Rightarrow> control \<times> event list" where
  "gpt_column E inp tr =
     try_except (column_body (call_gpt4o E) 1 ''GPT-4o'' ''gpt_prompt.md'' inp tr)
       (\<lambda>e tr'. (Done, tr' @ [Error (Col 1) ''GPT-4o Error: '' (Some e)]))"

definition deepseek_column :: "env \<Rightarrow> inputs \<Rightarrow> event list \<Rightarrow> control \<times> event list" where
  "deepseek_column E inp tr =
     try_except (column_body (call_deepseek E) 2 ''DeepSeek V3'' ''deepseek_prompt.md'' inp tr)
       (\<lambda>e tr'. (Done, tr' @ [Error (Col 2) ''DeepSeek Error: '' (Some e)]))"

definition comparison_mode :: "env \<Rightarrow> inputs \<Rightarrow> event list \<Rightarrow> control \<times> event list" where
  "comparison_mode E inp tr =
     (if compare inp \<and> project_idea inp \<noteq> [] then
        then_run (then_run (claude_column E inp (tr @ [Display Main ''Comparing models...'']))
                    (gpt_column E inp))
          (deepseek_column E inp)
      else (Done, tr))"

text \<open>The whole script, top to bottom.\<close>

definition compare_top :: "event list" where
  "compare_top =
     [Display Main ''Compare Multiple Models'',
      Display Main ''Enable comparison mode (generates prompts from all models)'']"

definition app :: "env \<Rightarrow> inputs \<Rightarrow> control \<times> event list" where
  "app E inp =
     then_run (generate_prompt E inp page_top)
       (\<lambda>tr. comparison_mode E inp (tr @ compare_top))"

section \<open>Reading a run\<close>

text \<open>The requests sent, the network events, the events of one slot, the files offered.\<close>

fun posts :: "event list \<Rightarrow> request list" where
  "posts [] = []"
| "posts (Post rq # es) = rq # posts es"
| "posts (e # es) = posts es"

fun is_net :: "event \<Rightarrow> bool" where
  "is_net (Post rq) = True"
| "is_net (Reply out) = True"
| "is_net e = False"

definition net_events :: "event list \<Rightarrow> event list" where
  "net_events es = filter is_net es"

fun slot_of :: "event \<Rightarrow> slot option" where
  "slot_of (Display sl s) = Some sl"
| "slot_of (Error sl s e) = Some sl"
| "slot_of (Code sl v) = Some sl"
| "slot_of (Download sl l d f) = Some sl"
| "slot_of e = None"

definition slot_view :: "slot \<Rightarrow> event list \<Rightarrow> event list" where
  "slot_view sl es = filter (\<lambda>e. slot_of e = Some sl) es"

fun downloads :: "event list \<Rightarrow> (slot \<times> string) list" where
  "downloads [] = []"
| "downloads (Download sl l d f # es) = (sl, f) # downloads es"
| "downloads (e # es) = downloads es"

text \<open>
  Every download button comes right after a code block of the same slot that shows the
  same value; \<open>prev\<close> is the event before the list.
\<close>

fun offered_as_shown :: "event option \<Rightarrow> event list \<Rightarrow> bool" where
  "offered_as_shown prev [] = True"
| "offered_as_shown prev (Download sl l d f # es) =
     (prev = Some (Code sl d) \<and> offered_as_shown (Some (Download sl l d f)) es)"
| "offered_as_shown prev (e # es) = offered_as_shown (Some e) es"

section \<open>The vocabulary of the specification\<close>

text \<open>
  The specification speaks of three provider variants with one capability
  \<open>generate\<close>; these are the three clients of the script.
\<close>

datatype provider = ProviderA | ProviderB | ProviderC

fun generate :: "provider \<Rightarrow> env \<Rightarrow> string \<Rightarrow> event list \<Rightarrow> (exn + json) \<times> event list" where
  "generate ProviderA = call_claude"
| "generate ProviderB = call_gpt4o"
| "generate ProviderC = call_deepseek"

fun secret_name :: "provider \<Rightarrow> string" where
  "secret_name ProviderA = ''ANTHROPIC_API_KEY''"
| "secret_name ProviderB = ''OPENAI_API_KEY''"
| "secret_name ProviderC = ''DEEPSEEK_API_KEY''"

fun request_for :: "provider \<Rightarrow> string \<Rightarrow> string \<Rightarrow> request" where
  "request_for ProviderA = claude_request"
| "request_for ProviderB = gpt4o_request"
| "request_for ProviderC = deepseek_request"

text \<open>
  The expected shape of a body, as the specification writes it: an object whose
  \<open>content\<close> is a list that starts with an object holding \<open>text\<close>; an object whose
  \<open>choices\<close> is a list that starts with an object whose \<open>message\<close> is an object
  holding \<open>content\<close>. The result is the value found there, if the body has the shape.
\<close>

fun claude_shape :: "json \<Rightarrow> json option" where
  "claude_shape (JObj kvs) =
     (case map_of kvs ''content'' of
        Some (JArr (JObj block # rest)) \<Rightarrow> map_of block ''text''
      | _ \<Rightarrow> None)"
| "claude_shape v = None"

fun chat_shape :: "json \<Rightarrow> json option" where
  "chat_shape (JObj kvs) =
     (case map_of kvs ''choices'' of
        Some (JArr (JObj choice # rest)) \<Rightarrow>
          (case map_of choice ''message'' of
             Some (JObj message) \<Rightarrow> map_of message ''content''
           | _ \<Rightarrow> None)
      | _ \<Rightarrow> None)"
| "chat_shape v = None"

fun expected_shape :: "provider \<Rightarrow> json \<Rightarrow> json option" where
  "expected_shape ProviderA = claude_shape"
| "expected_shape ProviderB = chat_shape"
| "expected_shape ProviderC = chat_shape"

text \<open>The exceptions of a subscript that cannot be taken.\<close>

fun shape_error :: "exn \<Rightarrow> bool" where
  "shape_error (KeyError k) = True"
| "shape_error IndexError = True"
| "shape_error TypeError = True"
| "shape_error e = False"

text \<open>The headers of the template, and what it is for a text to hold them in order.\<close>

definition section_headers :: "string list" where
  "section_headers =
     [''**PROJECT IDEA:**'', ''**REQUIREMENTS:**'', ''**Role:**'', ''**Context:**'',
      ''**Task Instructions:**'', ''**Constraints:**'', ''**Output Format:**'']"

fun in_order :: "string list \<Rightarrow> string \<Rightarrow> bool" where
  "in_order [] s = True"
| "in_order (h # hs) s = (\<exists>a b. s = a @ h @ b \<and> in_order hs b)"

text \<open>
  The client the dispatch on the model name picks, and the label of its error message.
\<close>

definition selected_client ::
  "env \<Rightarrow> string \<Rightarrow> string \<Rightarrow> event list \<Rightarrow> (exn + json) \<times> event list" where
  "selected_client E mdl =
     (if sublist ''Claude'' mdl then call_claude E
      else if sublist ''GPT'' mdl then call_gpt4o E else call_deepseek E)"

definition selected_label :: "string \<Rightarrow> string" where
  "selected_label mdl =
     (if sublist ''Claude'' mdl then ''Error with Claude API: ''
      else if sublist ''GPT'' mdl then ''Error with GPT-4o API: ''
      else ''Error with DeepSeek API: '')"

definition spinner :: event where
  "spinner = Display Main ''Crafting your perfect prompt...''"

text \<open>
  What the button handler draws once its client has come back with \<open>r\<close>, and how it
  ends; what a column of the comparison draws once its client has come back with \<open>r\<close>.
\<close>

fun single_shows :: "string \<Rightarrow> exn + json \<Rightarrow> control \<times> event list" where
  "single_shows label (Inl e) = (Stopped, [Error Main label (Some e)])"
| "single_shows label (Inr (JStr t)) =
     (Done, [Display Main ''Generated Prompt'', Code Main (JStr t),
             Download Main ''Copy Prompt to Clipboard'' (JStr t) ''ai_prompt.md''])"
| "single_shows label (Inr v) =
     (Raised StreamlitAPIException, [Display Main ''Generated Prompt'', Code Main v])"

fun column_shows :: "nat \<Rightarrow> string \<Rightarrow> string \<Rightarrow> exn + json \<Rightarrow> event list" where
  "column_shows i label file_name (Inl e) = [Error (Col i) label (Some e)]"
| "column_shows i label file_name (Inr (JStr t)) =
     [Code (Col i) (JStr t), Download (Col i) ''Download'' (JStr t) file_name]"
| "column_shows i label file_name (Inr v) =
     [Code (Col i) v, Error (Col i) label (Some StreamlitAPIException)]"

text \<open>The network events of one client: none without its secret, else a call and its outcome.\<close>

definition one_call :: "string option \<Rightarrow> (string \<Rightarrow> request) \<Rightarrow> exn + response \<Rightarrow> event list" where
  "one_call api_key rq out = (case api_key of None \<Rightarrow> [] | Some k \<Rightarrow> [Post (rq k), Reply out])"

section \<open>Mocked surroundings\<close>

text \<open>
  All three secrets set; every call comes back with \<open>out\<close>, or each endpoint with an
  outcome of its own.
\<close>

definition mock_secrets :: "string \<rightharpoonup> string" where
  "mock_secrets =
     [''ANTHROPIC_API_KEY'' \<mapsto> ''ka'', ''OPENAI_API_KEY'' \<mapsto> ''kb'', ''DEEPSEEK_API_KEY'' \<mapsto> ''kc'']"

definition mock_env :: "exn + response \<Rightarrow> env" where
  "mock_env out = \<lparr> secrets = mock_secrets, post = (\<lambda>tr rq. out) \<rparr>"

definition mock_routes :: "exn + response \<Rightarrow> exn + response \<Rightarrow> exn + response \<Rightarrow> env" where
  "mock_routes a b c =
     \<lparr> secrets = mock_secrets,
       post = (\<lambda>tr rq.
         if url rq = ''https://api.anthropic.com/v1/messages'' then a
         else if url rq = ''https://api.openai.com/v1/chat/completions'' then b
         else c) \<rparr>"

definition claude_body :: "json \<Rightarrow> json" where
  "claude_body v = JObj [(''content'', JArr [JObj [(''text'', v)]])]"

definition chat_body :: "json \<Rightarrow> json" where
  "chat_body v = JObj [(''choices'', JArr [JObj [(''message'', JObj [(''content'', v)])]])]"

definition ok :: "json \<Rightarrow> exn + response" where
  "ok b = Inr \<lparr> status_code = 200, body = Some b \<rparr>"

definition compare_only :: "string \<Rightarrow> string \<Rightarrow> inputs" where
  "compare_only idea req =
     \<lparr>model = ''Claude 3.5 Sonnet (Best for Logic)'', project_idea = idea, requirements = req,
      button = False, compare = True\<rparr>"

definition pressed :: "string \<Rightarrow> string \<Rightarrow> string \<Rightarrow> inputs" where
  "pressed mdl idea req =
     \<lparr>model = mdl, project_idea = idea, requirements = req, button = True, compare = True\<rparr>"

definition unauthorized :: "exn + response" where
  "unauthorized = Inr \<lparr>status_code = 401, body = None\<rparr>"

section \<open>Facts about the model\<close>

lemma format_template:
  "format META_PROMPT_TEMPLATE [(''project_idea'', a), (''requirements'', b)] =
     Inr (template_head @ a @ template_mid @ b @ template_tail)"
  by (simp add: META_PROMPT_TEMPLATE_def)

lemma meta_prompt_eq:
  "meta_prompt a b =
     Inr (template_head @ a @ template_mid @
          (if b \<noteq> [] then b else ''No extra requirements.'') @ template_tail)"
  unfolding meta_prompt_def by (rule format_template)

lemma compare_prompt_eq:
  "compare_prompt a b = Inr (template_head @ a @ template_mid @ b @ template_tail)"
  unfolding compare_prompt_def by (rule format_template)

lemma claude_subscript_Some:
  "claude_shape b = Some v \<Longrightarrow> subscript (Inr b) claude_path = Inr v"
  by (cases b) (auto simp: claude_path_def split: option.splits json.splits list.splits)

lemma claude_subscript_None:
  "claude_shape b = None \<Longrightarrow> \<exists>e. subscript (Inr b) claude_path = Inl e \<and> shape_error e"
  by (cases b) (auto simp: claude_path_def split: option.splits json.splits list.splits)

lemma chat_subscript_Some:
  "chat_shape b = Some v \<Longrightarrow> subscript (Inr b) chat_path = Inr v"
  by (cases b) (auto simp: chat_path_def split: option.splits json.splits list.splits)

lemma chat_subscript_None:
  "chat_shape b = None \<Longrightarrow> \<exists>e. subscript (Inr b) chat_path = Inl e \<and> shape_error e"
  by (cases b) (auto simp: chat_path_def split: option.splits json.splits list.splits)

lemma posts_append: "posts (xs @ ys) = posts xs @ posts ys"
  by (induction xs rule: posts.induct) simp_all

lemma in_order_step: "in_order hs b \<Longrightarrow> in_order (h # hs) (a @ h @ b)"
  by auto

lemma template_head_split:
  \<open>template_head = ''\<newline>You are an Expert AI Prompt Engineer specializing in generating highly effective prompts for coding and development tasks.\<newline>\<newline>Your task is to create a detailed, structured prompt that I can use with any AI model to solve the following problem:\<newline>\<newline>'' @ ''**PROJECT IDEA:**'' @ ''\<newline>''\<close>
  by (simp add: template_head_def)

lemma template_mid_split: "template_mid = ''\<newline>\<newline>'' @ ''**REQUIREMENTS:**'' @ ''\<newline>''"
  by (simp add: template_mid_def)

lemma template_tail_split:
  \<open>template_tail = ''\<newline>\<newline>Please follow this exact structure for the output prompt:\<newline>\<newline>---\<newline>'' @ ''**Role:**'' @ '' [Describe the expert role, e.g., "Senior Full-Stack Developer with 10+ years of experience in React and Node.js"]\<newline>'' @ ''**Context:**'' @ '' [Briefly explain the project, tech stack, and constraints]\<newline>'' @ ''**Task Instructions:**'' @ '' \<newline>1. [Step 1]\<newline>2. [Step 2]\<newline>...\<newline>'' @ ''**Constraints:**'' @ ''\<newline>- Must include [specific requirement 1]\<newline>- Must avoid [specific restriction 1]\<newline>...\<newline>'' @ ''**Output Format:**'' @ ''\<newline>- Provide complete, runnable code blocks.\<newline>- Include error handling.\<newline>- Add comments explaining key sections.\<newline>- Do NOT use placeholders like "// ...".\<newline>---\<newline>''\<close>
  by (simp add: template_tail_def)

lemma in_order_here: "in_order hs b \<Longrightarrow> in_order (h # hs) (h @ b)"
  using in_order_step [of hs b h "[]"] by simp

lemma in_order_skip: "in_order hs b \<Longrightarrow> in_order hs (a @ b)"
proof (cases hs)
  case Nil
  then show ?thesis by simp
next
  case (Cons h hs')
  assume "in_order hs b"
  with Cons obtain a' b' where "b = a' @ h @ b'" and "in_order hs' b'" by auto
  then have "a @ b = (a @ a') @ h @ b'" and "in_order hs' b'" by simp_all
  with Cons show ?thesis by (metis in_order_step)
qed

lemma headers_in_render:
  "in_order section_headers (template_head @ a @ template_mid @ b @ template_tail)"
  unfolding section_headers_def template_head_split template_mid_split template_tail_split
    append_assoc
  by ((rule in_order_here | rule in_order_skip)+, simp)

lemma generate_reads_response:
  assumes "secrets E (secret_name p) = Some k"
      and "post E tr (request_for p k prompt) = Inr r"
  shows "fst (generate p E prompt tr) =
           read_text (case p of ProviderA \<Rightarrow> claude_path | _ \<Rightarrow> chat_path) r"
  using assms
  by (cases p)
     (simp_all add: call_claude_def call_gpt4o_def call_deepseek_def secret_def
        requests_post_def Let_def)

lemma subscript_Inl: "subscript (Inl e) ks = Inl e"
  by (cases ks) simp_all

lemma expected_shape_Some:
  "expected_shape p b = Some v \<Longrightarrow>
     subscript (Inr b) (case p of ProviderA \<Rightarrow> claude_path | _ \<Rightarrow> chat_path) = Inr v"
  by (cases p) (simp_all add: claude_subscript_Some chat_subscript_Some)

lemma expected_shape_None:
  "expected_shape p b = None \<Longrightarrow>
     \<exists>e. subscript (Inr b) (case p of ProviderA \<Rightarrow> claude_path | _ \<Rightarrow> chat_path) = Inl e
        \<and> shape_error e"
  by (cases p) (simp_all add: claude_subscript_None chat_subscript_None)

lemma call_selected_eq:
  "selected_client E m p tr = (r, t) \<Longrightarrow>
   call_selected E m p tr =
     (case r of Inl e \<Rightarrow> (Inl Stopped, t @ [Error Main (selected_label m) (Some e)])
              | Inr v \<Rightarrow> (Inr v, t))"
  by (auto simp: call_selected_def selected_client_def selected_label_def call_or_stop_def
      split: sum.splits if_splits)

lemma generate_prompt_eq:
  assumes "button inp" and "project_idea inp \<noteq> []"
      and "meta_prompt (project_idea inp) (requirements inp) = Inr p"
      and "selected_client E (model inp) p (tr @ [spinner]) = (r, t)"
  shows "generate_prompt E inp tr =
           (fst (single_shows (selected_label (model inp)) r),
            t @ snd (single_shows (selected_label (model inp)) r))"
proof (cases r)
  case (Inl e)
  then show ?thesis
    using assms call_selected_eq [OF assms(4)]
    by (simp add: generate_prompt_def spinner_def)
next
  case (Inr v)
  then show ?thesis
    using assms call_selected_eq [OF assms(4)]
    by (cases v) (simp_all add: generate_prompt_def spinner_def download_button_def)
qed

lemma column_eq:
  assumes "compare_prompt (project_idea inp) (requirements inp) = Inr p"
      and "call p (tr @ [Display (Col i) title]) = (r, t)"
  shows "try_except (column_body call i title file_name inp tr)
           (\<lambda>e tr'. (Done, tr' @ [Error (Col i) label (Some e)])) =
         (Done, t @ column_shows i label file_name r)"
proof (cases r)
  case (Inl e)
  then show ?thesis using assms by (simp add: column_body_def try_except_def)
next
  case (Inr v)
  then show ?thesis using assms
    by (cases v) (simp_all add: column_body_def try_except_def download_button_def)
qed

lemma comparison_mode_eq:
  assumes "compare inp" and "project_idea inp \<noteq> []"
      and "compare_prompt (project_idea inp) (requirements inp) = Inr p"
      and "call_claude E p (tr @ [Display Main ''Comparing models...'', Display (Col 0) ''Claude 3.5 Sonnet'']) = (r1, t1)"
      and "call_gpt4o E p (t1 @ column_shows 0 ''Claude Error: '' ''claude_prompt.md'' r1 @ [Display (Col 1) ''GPT-4o'']) = (r2, t2)"
      and "call_deepseek E p (t2 @ column_shows 1 ''GPT-4o Error: '' ''gpt_prompt.md'' r2 @ [Display (Col 2) ''DeepSeek V3'']) = (r3, t3)"
  shows "comparison_mode E inp tr =
           (Done, t3 @ column_shows 2 ''DeepSeek Error: '' ''deepseek_prompt.md'' r3)"
proof -
  have 1: "claude_column E inp (tr @ [Display Main ''Comparing models...'']) =
             (Done, t1 @ column_shows 0 ''Claude Error: '' ''claude_prompt.md'' r1)"
    unfolding claude_column_def using assms(4) by (intro column_eq [OF assms(3)]) simp
  have 2: "gpt_column E inp (t1 @ column_shows 0 ''Claude Error: '' ''claude_prompt.md'' r1) =
             (Done, t2 @ column_shows 1 ''GPT-4o Error: '' ''gpt_prompt.md'' r2)"
    unfolding gpt_column_def using assms(5) by (intro column_eq [OF assms(3)]) simp
  have 3: "deepseek_column E inp (t2 @ column_shows 1 ''GPT-4o Error: '' ''gpt_prompt.md'' r2) =
             (Done, t3 @ column_shows 2 ''DeepSeek Error: '' ''deepseek_prompt.md'' r3)"
    unfolding deepseek_column_def using assms(6) by (intro column_eq [OF assms(3)]) simp
  show ?thesis using assms(1,2)
    by (simp add: comparison_mode_def then_run_def 1 2 3 del: One_nat_def)
qed

lemma slot_view_append: "slot_view sl (xs @ ys) = slot_view sl xs @ slot_view sl ys"
  by (simp add: slot_view_def)

lemma slot_view_Nil: "slot_view sl [] = []"
  by (simp add: slot_view_def)

lemma slot_view_Cons:
  "slot_view sl (e # es) = (if slot_of e = Some sl then e # slot_view sl es else slot_view sl es)"
  by (simp add: slot_view_def)

lemma net_events_append: "net_events (xs @ ys) = net_events xs @ net_events ys"
  by (simp add: net_events_def)

lemma downloads_append: "downloads (xs @ ys) = downloads xs @ downloads ys"
  by (induction xs rule: downloads.induct) simp_all

lemma slot_view_column_shows:
  "slot_view (Col j) (column_shows i label file_name r) =
     (if i = j then column_shows i label file_name r else [])"
  by (cases "(i, label, file_name, r)" rule: column_shows.cases) (simp_all add: slot_view_def)

lemma call_claude_trace:
  "snd (call_claude E p tr) = tr @ one_call (secrets E ''ANTHROPIC_API_KEY'')
       (\<lambda>k. claude_request k p)
       (post E tr (claude_request (the (secrets E ''ANTHROPIC_API_KEY'')) p))"
  by (auto simp: call_claude_def secret_def requests_post_def Let_def one_call_def
      split: option.splits sum.splits)

lemma call_gpt4o_trace:
  "snd (call_gpt4o E p tr) = tr @ one_call (secrets E ''OPENAI_API_KEY'')
       (\<lambda>k. gpt4o_request k p)
       (post E tr (gpt4o_request (the (secrets E ''OPENAI_API_KEY'')) p))"
  by (auto simp: call_gpt4o_def secret_def requests_post_def Let_def one_call_def
      split: option.splits sum.splits)

lemma call_deepseek_trace:
  "snd (call_deepseek E p tr) = tr @ one_call (secrets E ''DEEPSEEK_API_KEY'')
       (\<lambda>k. deepseek_request k p)
       (post E tr (deepseek_request (the (secrets E ''DEEPSEEK_API_KEY'')) p))"
  by (auto simp: call_deepseek_def secret_def requests_post_def Let_def one_call_def
      split: option.splits sum.splits)

lemma slot_view_one_call: "slot_view sl (one_call k rq out) = []"
  by (simp add: one_call_def slot_view_def split: option.splits)

lemma net_events_one_call: "net_events (one_call k rq out) = one_call k rq out"
  by (simp add: one_call_def net_events_def split: option.splits)

lemma net_events_column_shows: "net_events (column_shows i label file_name r) = []"
  by (cases "(i, label, file_name, r)" rule: column_shows.cases) (simp_all add: net_events_def)

lemma downloads_one_call: "downloads (one_call k rq out) = []"
  by (simp add: one_call_def split: option.splits)

lemma net_events_Nil: "net_events [] = []"
  by (simp add: net_events_def)

lemma net_events_Cons:
  "net_events (e # es) = (if is_net e then e # net_events es else net_events es)"
  by (simp add: net_events_def)

lemma comparison_mode_trace:
  assumes "compare inp" and "project_idea inp \<noteq> []"
      and "compare_prompt (project_idea inp) (requirements inp) = Inr p"
  shows "\<exists>r1 r2 r3 o1 o2 o3. comparison_mode E inp tr =
      (Done, tr @ [Display Main ''Comparing models...'', Display (Col 0) ''Claude 3.5 Sonnet''] @
        one_call (secrets E ''ANTHROPIC_API_KEY'') (\<lambda>k. claude_request k p) o1 @
        column_shows 0 ''Claude Error: '' ''claude_prompt.md'' r1 @ [Display (Col 1) ''GPT-4o''] @
        one_call (secrets E ''OPENAI_API_KEY'') (\<lambda>k. gpt4o_request k p) o2 @
        column_shows 1 ''GPT-4o Error: '' ''gpt_prompt.md'' r2 @ [Display (Col 2) ''DeepSeek V3''] @
        one_call (secrets E ''DEEPSEEK_API_KEY'') (\<lambda>k. deepseek_request k p) o3 @
        column_shows 2 ''DeepSeek Error: '' ''deepseek_prompt.md'' r3)"
proof -
  let ?h1 = "tr @ [Display Main ''Comparing models...'', Display (Col 0) ''Claude 3.5 Sonnet'']"
  obtain r1 t1 where c1: "call_claude E p ?h1 = (r1, t1)"
    by (cases "call_claude E p ?h1")
  let ?h2 = "t1 @ column_shows 0 ''Claude Error: '' ''claude_prompt.md'' r1 @ [Display (Col 1) ''GPT-4o'']"
  obtain r2 t2 where c2: "call_gpt4o E p ?h2 = (r2, t2)"
    by (cases "call_gpt4o E p ?h2")
  let ?h3 = "t2 @ column_shows 1 ''GPT-4o Error: '' ''gpt_prompt.md'' r2 @ [Display (Col 2) ''DeepSeek V3'']"
  obtain r3 t3 where c3: "call_deepseek E p ?h3 = (r3, t3)"
    by (cases "call_deepseek E p ?h3")
  have run: "comparison_mode E inp tr =
      (Done, t3 @ column_shows 2 ''DeepSeek Error: '' ''deepseek_prompt.md'' r3)"
    by (rule comparison_mode_eq [OF assms(1,2,3) c1 c2 c3])
  have t1: "t1 = ?h1 @ one_call (secrets E ''ANTHROPIC_API_KEY'') (\<lambda>k. claude_request k p)
       (post E ?h1 (claude_request (the (secrets E ''ANTHROPIC_API_KEY'')) p))"
    using call_claude_trace [of E p ?h1] c1 by simp
  have t2: "t2 = ?h2 @ one_call (secrets E ''OPENAI_API_KEY'') (\<lambda>k. gpt4o_request k p)
       (post E ?h2 (gpt4o_request (the (secrets E ''OPENAI_API_KEY'')) p))"
    using call_gpt4o_trace [of E p ?h2] c2 by simp
  have t3: "t3 = ?h3 @ one_call (secrets E ''DEEPSEEK_API_KEY'') (\<lambda>k. deepseek_request k p)
       (post E ?h3 (deepseek_request (the (secrets E ''DEEPSEEK_API_KEY'')) p))"
    using call_deepseek_trace [of E p ?h3] c3 by simp
  show ?thesis
    unfolding run
    apply (subst t3)
    apply (subst t2)
    apply (subst t1)
    apply (simp only: append_assoc)
    apply blast
    done
qed

lemma picks_gpt:
  "\<not> sublist ''Claude'' ''GPT-4o (Best for Creativity)''"
  "sublist ''GPT'' ''GPT-4o (Best for Creativity)''"
  by code_simp+

lemma mock_routes_claude:
  "call_claude (mock_routes a b c) p h =
     (case a of Inl e \<Rightarrow> Inl e | Inr r \<Rightarrow> read_text claude_path r,
      h @ [Post (claude_request ''ka'' p), Reply a])"
  by (simp add: call_claude_def secret_def requests_post_def Let_def mock_routes_def
      mock_secrets_def claude_request_def split: sum.splits)

lemma mock_routes_gpt4o:
  "call_gpt4o (mock_routes a b c) p h =
     (case b of Inl e \<Rightarrow> Inl e | Inr r \<Rightarrow> read_text chat_path r,
      h @ [Post (gpt4o_request ''kb'' p), Reply b])"
  by (simp add: call_gpt4o_def secret_def requests_post_def Let_def mock_routes_def
      mock_secrets_def gpt4o_request_def split: sum.splits)

lemma mock_routes_deepseek:
  "call_deepseek (mock_routes a b c) p h =
     (case c of Inl e \<Rightarrow> Inl e | Inr r \<Rightarrow> read_text chat_path r,
      h @ [Post (deepseek_request ''kc'' p), Reply c])"
  by (simp add: call_deepseek_def secret_def requests_post_def Let_def mock_routes_def
      mock_secrets_def deepseek_request_def split: sum.splits)

lemma read_ok_claude: "read_text claude_path \<lparr>status_code = 200, body = Some (claude_body v)\<rparr> = Inr v"
  by (simp add: read_text_def raise_for_status_def response_json_def claude_path_def
      claude_body_def)

lemma read_ok_chat: "read_text chat_path \<lparr>status_code = 200, body = Some (chat_body v)\<rparr> = Inr v"
  by (simp add: read_text_def raise_for_status_def response_json_def chat_path_def
      chat_body_def)

lemma read_unauthorized:
  "read_text path \<lparr>status_code = 401, body = None\<rparr> = Inl (HTTPError \<lparr>status_code = 401, body = None\<rparr>)"
  by (simp add: read_text_def raise_for_status_def)

lemma sample_comparison:
  "comparison_mode (mock_routes (ok (claude_body (JStr ''A''))) unauthorized (ok (chat_body (JStr ''C''))))
     (compare_only ''idea'' []) tr =
   (Done, tr @
     [Display Main ''Comparing models...'',
      Display (Col 0) ''Claude 3.5 Sonnet'',
      Post (claude_request ''ka'' (template_head @ ''idea'' @ template_mid @ template_tail)),
      Reply (ok (claude_body (JStr ''A''))),
      Code (Col 0) (JStr ''A''),
      Download (Col 0) ''Download'' (JStr ''A'') ''claude_prompt.md'',
      Display (Col 1) ''GPT-4o'',
      Post (gpt4o_request ''kb'' (template_head @ ''idea'' @ template_mid @ template_tail)),
      Reply unauthorized,
      Error (Col 1) ''GPT-4o Error: '' (Some (HTTPError \<lparr>status_code = 401, body = None\<rparr>)),
      Display (Col 2) ''DeepSeek V3'',
      Post (deepseek_request ''kc'' (template_head @ ''idea'' @ template_mid @ template_tail)),
      Reply (ok (chat_body (JStr ''C''))),
      Code (Col 2) (JStr ''C''),
      Download (Col 2) ''Download'' (JStr ''C'') ''deepseek_prompt.md''])"
  by (subst comparison_mode_eq [where p = "template_head @ ''idea'' @ template_mid @ template_tail",
        OF _ _ _ mock_routes_claude mock_routes_gpt4o mock_routes_deepseek])
     (simp_all add: compare_only_def compare_prompt_eq ok_def unauthorized_def read_ok_claude
        read_ok_chat read_unauthorized)

lemma selected_client_trace:
  "\<exists>r k rq out. selected_client E m p tr = (r, tr @ one_call k rq out)"
proof -
  have "\<exists>k rq out. snd (selected_client E m p tr) = tr @ one_call k rq out"
    unfolding selected_client_def
    using call_claude_trace [of E p tr] call_gpt4o_trace [of E p tr] call_deepseek_trace [of E p tr]
    by (simp only: split: if_splits) blast
  then show ?thesis by (cases "selected_client E m p tr") auto
qed

lemma generate_prompt_shape:
  "\<exists>c es. generate_prompt E inp tr = (c, tr @ es) \<and>
     (es = [] \<or> es = [Error Main ''Please enter a project idea.'' None] \<or>
      (\<exists>r k rq out. es = spinner # one_call k rq out @
                         snd (single_shows (selected_label (model inp)) r)))"
proof (cases "button inp \<and> project_idea inp \<noteq> []")
  case False
  then show ?thesis by (auto simp: generate_prompt_def)
next
  case True
  obtain p where p: "meta_prompt (project_idea inp) (requirements inp) = Inr p"
    using meta_prompt_eq by blast
  obtain r k rq out where
    s: "selected_client E (model inp) p (tr @ [spinner]) = (r, (tr @ [spinner]) @ one_call k rq out)"
    using selected_client_trace by blast
  show ?thesis
    using generate_prompt_eq [OF _ _ p s] True by auto
qed

lemma comparison_mode_shape:
  "\<exists>es. comparison_mode E inp tr = (Done, tr @ es) \<and>
     (es = [] \<or>
      (\<exists>r1 r2 r3 k1 k2 k3 q1 q2 q3 o1 o2 o3. es =
        [Display Main ''Comparing models...'', Display (Col 0) ''Claude 3.5 Sonnet''] @
        one_call k1 q1 o1 @
        column_shows 0 ''Claude Error: '' ''claude_prompt.md'' r1 @ [Display (Col 1) ''GPT-4o''] @
        one_call k2 q2 o2 @
        column_shows 1 ''GPT-4o Error: '' ''gpt_prompt.md'' r2 @ [Display (Col 2) ''DeepSeek V3''] @
        one_call k3 q3 o3 @
        column_shows 2 ''DeepSeek Error: '' ''deepseek_prompt.md'' r3))"
proof (cases "compare inp \<and> project_idea inp \<noteq> []")
  case False
  then show ?thesis by (auto simp: comparison_mode_def)
next
  case True
  obtain p where p: "compare_prompt (project_idea inp) (requirements inp) = Inr p"
    using compare_prompt_eq by blast
  show ?thesis
    using comparison_mode_trace [OF _ _ p, of E tr] True by blast
qed

lemma oas_append:
  "offered_as_shown prev (xs @ ys) \<longleftrightarrow>
     offered_as_shown prev xs \<and> offered_as_shown (if xs = [] then prev else Some (last xs)) ys"
  by (induction prev xs rule: offered_as_shown.induct) simp_all

lemma oas_one_call: "offered_as_shown prev (one_call k rq out)"
  by (simp add: one_call_def split: option.splits)

lemma oas_column_shows: "offered_as_shown prev (column_shows i label file_name r)"
  by (cases "(i, label, file_name, r)" rule: column_shows.cases) simp_all

lemma oas_single_shows: "offered_as_shown prev (snd (single_shows label r))"
  by (cases "(label, r)" rule: single_shows.cases) simp_all

lemma oas_page_top: "offered_as_shown prev page_top"
  by (simp add: page_top_def)

lemma oas_compare_top: "offered_as_shown prev compare_top"
  by (simp add: compare_top_def)

lemma oas_generate_prompt:
  "generate_prompt E inp tr = (c, tr @ es) \<Longrightarrow> offered_as_shown prev es"
  using generate_prompt_shape [of E inp tr]
  by (auto simp: oas_append oas_one_call oas_single_shows spinner_def)

lemma oas_comparison_mode:
  "comparison_mode E inp tr = (c, tr @ es) \<Longrightarrow> offered_as_shown prev es"
  using comparison_mode_shape [of E inp tr]
  by (auto simp: oas_append oas_one_call oas_column_shows simp del: One_nat_def)

lemma downloads_single_shows:
  "downloads (snd (single_shows label r)) = [] \<or>
   downloads (snd (single_shows label r)) = [(Main, ''ai_prompt.md'')]"
  by (cases "(label, r)" rule: single_shows.cases) simp_all

lemma downloads_column_shows:
  "downloads (column_shows i label file_name r) = [] \<or>
   downloads (column_shows i label file_name r) = [(Col i, file_name)]"
  by (cases "(i, label, file_name, r)" rule: column_shows.cases) simp_all

lemma mock_env_gpt4o:
  "call_gpt4o (mock_env out) p h =
     (case out of Inl e \<Rightarrow> Inl e | Inr r \<Rightarrow> read_text chat_path r,
      h @ [Post (gpt4o_request ''kb'' p), Reply out])"
  by (simp add: call_gpt4o_def secret_def requests_post_def Let_def mock_env_def
      mock_secrets_def split: sum.splits)

lemma sample_generate:
  "generate_prompt (mock_routes a (ok (chat_body (JStr ''B''))) c)
     (pressed ''GPT-4o (Best for Creativity)'' ''idea'' ''reqs'') tr =
   (Done, tr @
     [spinner,
      Post (gpt4o_request ''kb'' (template_head @ ''idea'' @ template_mid @ ''reqs'' @ template_tail)),
      Reply (ok (chat_body (JStr ''B''))),
      Display Main ''Generated Prompt'',
      Code Main (JStr ''B''),
      Download Main ''Copy Prompt to Clipboard'' (JStr ''B'') ''ai_prompt.md''])"
  by (subst generate_prompt_eq [where r = "Inr (JStr ''B'')"
        and p = "template_head @ ''idea'' @ template_mid @ ''reqs'' @ template_tail"
        and t = "(tr @ [spinner]) @ [Post (gpt4o_request ''kb''
                   (template_head @ ''idea'' @ template_mid @ ''reqs'' @ template_tail)),
                 Reply (ok (chat_body (JStr ''B'')))]"])
     (simp_all add: pressed_def meta_prompt_eq selected_client_def picks_gpt mock_routes_gpt4o
        ok_def read_ok_chat)

section \<open>The claims\<close>

subsection \<open>C1: the sentinel for empty requirements\<close>

text \<open>
  C1 at its failing input. With the requirements left empty, the button handler fills the
  template with the sentinel, and the comparison fills it with the empty text: the prompt
  that the three requests of the comparison carry is not the one with the sentinel.
\<close>

theorem comparison_prompt_lacks_sentinel:
  "meta_prompt ''idea'' [] =
     Inr (template_head @ ''idea'' @ template_mid @ ''No extra requirements.'' @ template_tail) \<and>
   compare_prompt ''idea'' [] = Inr (template_head @ ''idea'' @ template_mid @ template_tail) \<and>
   template_head @ ''idea'' @ template_mid @ template_tail \<noteq>
     template_head @ ''idea'' @ template_mid @ ''No extra requirements.'' @ template_tail \<and>
   posts (snd (app (mock_routes (ok (claude_body (JStr ''A''))) unauthorized (ok (chat_body (JStr ''C''))))
     (compare_only ''idea'' []))) =
     [claude_request ''ka'' (template_head @ ''idea'' @ template_mid @ template_tail),
      gpt4o_request ''kb'' (template_head @ ''idea'' @ template_mid @ template_tail),
      deepseek_request ''kc'' (template_head @ ''idea'' @ template_mid @ template_tail)]"
proof -
  have "generate_prompt E (compare_only ''idea'' []) tr = (Done, tr)" for E tr
    by (simp add: generate_prompt_def compare_only_def)
  then show ?thesis
    by (simp add: meta_prompt_eq compare_prompt_eq app_def then_run_def sample_comparison
        posts_append page_top_def compare_top_def)
qed

subsection \<open>C2: an empty project idea sends nothing\<close>

text \<open>
  C2. Whenever the project idea is empty, a run of the script sends no request, on either
  path: the button handler writes its error message instead of calling a client, and the
  comparison is guarded by the same field, so it is skipped. The run ends normally.
\<close>

theorem empty_idea_no_network_call:
  assumes "project_idea inp = []"
  shows "posts (snd (app E inp)) = [] \<and> fst (app E inp) = Done \<and>
         (button inp \<longrightarrow> Error Main ''Please enter a project idea.'' None \<in> set (snd (app E inp)))"
  using assms
  by (simp add: app_def generate_prompt_def comparison_mode_def then_run_def posts_append
      page_top_def compare_top_def)

theorem empty_idea_no_network_call_witness:
  "project_idea (pressed ''GPT-4o (Best for Creativity)'' [] ''x'') = [] \<and>
   posts (snd (app (mock_env (ok (chat_body (JStr ''X''))))
     (pressed ''GPT-4o (Best for Creativity)'' [] ''x''))) = [] \<and>
   Error Main ''Please enter a project idea.'' None \<in>
     set (snd (app (mock_env (ok (chat_body (JStr ''X''))))
       (pressed ''GPT-4o (Best for Creativity)'' [] ''x'')))"
  using empty_idea_no_network_call [of "pressed ''GPT-4o (Best for Creativity)'' [] ''x''"
    "mock_env (ok (chat_body (JStr ''X'')))"]
  by (simp add: pressed_def)

subsection \<open>C3: the columns of the comparison do not depend on each other\<close>

text \<open>
  C3. In the comparison, whatever the three clients come back with (a value or any
  exception, in any combination), the section runs to its end, and each column shows
  its own title and then what belongs to its own client's result: the exception in its
  error box, or the value in its code block with the download button after it.
\<close>

theorem comparison_columns_independent:
  assumes "compare inp" and "project_idea inp \<noteq> []"
      and "compare_prompt (project_idea inp) (requirements inp) = Inr p"
      and "\<And>h. fst (call_claude E p h) = r1"
      and "\<And>h. fst (call_gpt4o E p h) = r2"
      and "\<And>h. fst (call_deepseek E p h) = r3"
  shows "fst (comparison_mode E inp tr) = Done \<and>
         slot_view (Col 0) (snd (comparison_mode E inp tr)) =
           slot_view (Col 0) tr @ Display (Col 0) ''Claude 3.5 Sonnet'' #
             column_shows 0 ''Claude Error: '' ''claude_prompt.md'' r1 \<and>
         slot_view (Col 1) (snd (comparison_mode E inp tr)) =
           slot_view (Col 1) tr @ Display (Col 1) ''GPT-4o'' #
             column_shows 1 ''GPT-4o Error: '' ''gpt_prompt.md'' r2 \<and>
         slot_view (Col 2) (snd (comparison_mode E inp tr)) =
           slot_view (Col 2) tr @ Display (Col 2) ''DeepSeek V3'' #
             column_shows 2 ''DeepSeek Error: '' ''deepseek_prompt.md'' r3"
proof -
  let ?h1 = "tr @ [Display Main ''Comparing models...'', Display (Col 0) ''Claude 3.5 Sonnet'']"
  obtain t1 where c1: "call_claude E p ?h1 = (r1, t1)"
    using assms(4) [of ?h1] by (cases "call_claude E p ?h1") simp
  let ?h2 = "t1 @ column_shows 0 ''Claude Error: '' ''claude_prompt.md'' r1 @ [Display (Col 1) ''GPT-4o'']"
  obtain t2 where c2: "call_gpt4o E p ?h2 = (r2, t2)"
    using assms(5) [of ?h2] by (cases "call_gpt4o E p ?h2") simp
  let ?h3 = "t2 @ column_shows 1 ''GPT-4o Error: '' ''gpt_prompt.md'' r2 @ [Display (Col 2) ''DeepSeek V3'']"
  obtain t3 where c3: "call_deepseek E p ?h3 = (r3, t3)"
    using assms(6) [of ?h3] by (cases "call_deepseek E p ?h3") simp
  have run: "comparison_mode E inp tr =
      (Done, t3 @ column_shows 2 ''DeepSeek Error: '' ''deepseek_prompt.md'' r3)"
    by (rule comparison_mode_eq [OF assms(1,2,3) c1 c2 c3])
  have t1: "t1 = ?h1 @ one_call (secrets E ''ANTHROPIC_API_KEY'') (\<lambda>k. claude_request k p)
       (post E ?h1 (claude_request (the (secrets E ''ANTHROPIC_API_KEY'')) p))"
    using call_claude_trace [of E p ?h1] c1 by simp
  have t2: "t2 = ?h2 @ one_call (secrets E ''OPENAI_API_KEY'') (\<lambda>k. gpt4o_request k p)
       (post E ?h2 (gpt4o_request (the (secrets E ''OPENAI_API_KEY'')) p))"
    using call_gpt4o_trace [of E p ?h2] c2 by simp
  have t3: "t3 = ?h3 @ one_call (secrets E ''DEEPSEEK_API_KEY'') (\<lambda>k. deepseek_request k p)
       (post E ?h3 (deepseek_request (the (secrets E ''DEEPSEEK_API_KEY'')) p))"
    using call_deepseek_trace [of E p ?h3] c3 by simp
  have v1: "slot_view sl t1 = slot_view sl ?h1" for sl
    by (subst t1) (simp add: slot_view_append slot_view_one_call del: append_assoc)
  have v2: "slot_view sl t2 = slot_view sl ?h2" for sl
    by (subst t2) (simp add: slot_view_append slot_view_one_call del: append_assoc)
  have v3: "slot_view sl t3 = slot_view sl ?h3" for sl
    by (subst t3) (simp add: slot_view_append slot_view_one_call del: append_assoc)
  show ?thesis
    unfolding run
    by (simp add: slot_view_append v3 v2 v1 slot_view_column_shows slot_view_Cons slot_view_Nil
        del: One_nat_def)
qed

theorem comparison_columns_independent_witness:
  "fst (comparison_mode (mock_routes (ok (claude_body (JStr ''A''))) unauthorized (ok (chat_body (JStr ''C''))))
     (compare_only ''idea'' []) []) = Done \<and>
   slot_view (Col 0) (snd (comparison_mode
     (mock_routes (ok (claude_body (JStr ''A''))) unauthorized (ok (chat_body (JStr ''C''))))
     (compare_only ''idea'' []) [])) =
     [Display (Col 0) ''Claude 3.5 Sonnet'', Code (Col 0) (JStr ''A''),
      Download (Col 0) ''Download'' (JStr ''A'') ''claude_prompt.md''] \<and>
   slot_view (Col 1) (snd (comparison_mode
     (mock_routes (ok (claude_body (JStr ''A''))) unauthorized (ok (chat_body (JStr ''C''))))
     (compare_only ''idea'' []) [])) =
     [Display (Col 1) ''GPT-4o'',
      Error (Col 1) ''GPT-4o Error: '' (Some (HTTPError \<lparr>status_code = 401, body = None\<rparr>))] \<and>
   slot_view (Col 2) (snd (comparison_mode
     (mock_routes (ok (claude_body (JStr ''A''))) unauthorized (ok (chat_body (JStr ''C''))))
     (compare_only ''idea'' []) [])) =
     [Display (Col 2) ''DeepSeek V3'', Code (Col 2) (JStr ''C''),
      Download (Col 2) ''Download'' (JStr ''C'') ''deepseek_prompt.md'']"
proof -
  let ?E = "mock_routes (ok (claude_body (JStr ''A''))) unauthorized (ok (chat_body (JStr ''C'')))"
  let ?p = "template_head @ ''idea'' @ template_mid @ template_tail"
  have a: "compare (compare_only ''idea'' [])" "project_idea (compare_only ''idea'' []) \<noteq> []"
    by (simp_all add: compare_only_def)
  have b: "compare_prompt (project_idea (compare_only ''idea'' []))
             (requirements (compare_only ''idea'' [])) = Inr ?p"
    by (simp add: compare_only_def compare_prompt_eq)
  have c1: "fst (call_claude ?E ?p h) = Inr (JStr ''A'')" for h
    by (simp add: mock_routes_claude ok_def read_ok_claude)
  have c2: "fst (call_gpt4o ?E ?p h) = Inl (HTTPError \<lparr>status_code = 401, body = None\<rparr>)" for h
    by (simp add: mock_routes_gpt4o unauthorized_def read_unauthorized)
  have c3: "fst (call_deepseek ?E ?p h) = Inr (JStr ''C'')" for h
    by (simp add: mock_routes_deepseek ok_def read_ok_chat)
  show ?thesis
    using comparison_columns_independent [OF a b c1 c2 c3, of "[]"]
    by (simp add: slot_view_Nil del: One_nat_def)
qed

subsection \<open>C4: a well-shaped answer is returned as it is\<close>

text \<open>
  C4. For each of the three providers: when its secret is set and the call comes back with
  status 200 and a body of the provider's expected shape that holds the string \<open>X\<close>,
  \<open>generate\<close> returns exactly \<open>X\<close>.
\<close>

theorem generate_returns_text:
  assumes "secrets E (secret_name p) = Some k"
      and "post E tr (request_for p k prompt) = Inr r"
      and "status_code r = 200"
      and "body r = Some b"
      and "expected_shape p b = Some (JStr X)"
  shows "fst (generate p E prompt tr) = Inr (JStr X)"
  using generate_reads_response [OF assms(1,2)] expected_shape_Some [OF assms(5)] assms(3,4)
  by (simp add: read_text_def raise_for_status_def response_json_def)

theorem generate_returns_text_witness:
  "fst (generate ProviderA (mock_env (Inr \<lparr>status_code = 200, body = Some (claude_body (JStr ''X''))\<rparr>))
          ''p'' []) = Inr (JStr ''X'') \<and>
   fst (generate ProviderB (mock_env (Inr \<lparr>status_code = 200, body = Some (chat_body (JStr ''X''))\<rparr>))
          ''p'' []) = Inr (JStr ''X'') \<and>
   fst (generate ProviderC (mock_env (Inr \<lparr>status_code = 200, body = Some (chat_body (JStr ''X''))\<rparr>))
          ''p'' []) = Inr (JStr ''X'')"
proof -
  have s: "secrets (mock_env out) (secret_name p) =
             Some (case p of ProviderA \<Rightarrow> ''ka'' | ProviderB \<Rightarrow> ''kb'' | ProviderC \<Rightarrow> ''kc'')" for out p
    by (cases p) (simp_all add: mock_env_def mock_secrets_def)
  have p: "post (mock_env (Inr r)) [] rq = Inr r" for r rq
    by (simp add: mock_env_def)
  show ?thesis
    using generate_returns_text [OF s p, of "\<lparr>status_code = 200, body = Some (claude_body (JStr ''X''))\<rparr>"
              "claude_body (JStr ''X'')" ProviderA "''X''" "''p''"]
      generate_returns_text [OF s p, of "\<lparr>status_code = 200, body = Some (chat_body (JStr ''X''))\<rparr>"
              "chat_body (JStr ''X'')" ProviderB "''X''" "''p''"]
      generate_returns_text [OF s p, of "\<lparr>status_code = 200, body = Some (chat_body (JStr ''X''))\<rparr>"
              "chat_body (JStr ''X'')" ProviderC "''X''" "''p''"]
    by (simp add: claude_body_def chat_body_def)
qed

subsection \<open>C5: how a call fails\<close>

text \<open>
  C5, as the script has it. For each provider, with its secret set and a call that came back
  with a response: a status from 400 to 599 raises the HTTP error that carries the response
  (status and body); for any other status, a body that is not JSON raises the decoding
  error, a body without the expected shape raises the error of the subscript that cannot be
  taken, and a body of the expected shape gives the whole value found there, whatever its
  type. Nothing in between is returned.
\<close>

theorem generate_failures:
  assumes "secrets E (secret_name p) = Some k"
      and "post E tr (request_for p k prompt) = Inr r"
  shows "(400 \<le> status_code r \<and> status_code r < 600 \<longrightarrow>
            fst (generate p E prompt tr) = Inl (HTTPError r)) \<and>
         (\<not> (400 \<le> status_code r \<and> status_code r < 600) \<longrightarrow>
            (body r = None \<longrightarrow> fst (generate p E prompt tr) = Inl JSONDecodeError) \<and>
            (\<forall>b. body r = Some b \<longrightarrow>
               (case expected_shape p b of
                  None \<Rightarrow> \<exists>e. fst (generate p E prompt tr) = Inl e \<and> shape_error e
                | Some v \<Rightarrow> fst (generate p E prompt tr) = Inr v)))"
  using expected_shape_Some [of p] expected_shape_None [of p]
  unfolding generate_reads_response [OF assms]
  by (auto simp: read_text_def raise_for_status_def response_json_def subscript_Inl
      split: option.splits)

theorem generate_failures_witness:
  "fst (generate ProviderB (mock_env (Inr \<lparr>status_code = 401, body = None\<rparr>)) ''p'' [])
     = Inl (HTTPError \<lparr>status_code = 401, body = None\<rparr>) \<and>
   fst (generate ProviderB (mock_env (Inr \<lparr>status_code = 200, body = None\<rparr>)) ''p'' [])
     = Inl JSONDecodeError \<and>
   (\<exists>e. fst (generate ProviderB
               (mock_env (Inr \<lparr>status_code = 200, body = Some (claude_body (JStr ''X''))\<rparr>)) ''p'' [])
          = Inl e \<and> shape_error e) \<and>
   fst (generate ProviderB
          (mock_env (Inr \<lparr>status_code = 200, body = Some (chat_body (JStr ''X''))\<rparr>)) ''p'' [])
     = Inr (JStr ''X'')"
proof -
  have s: "secrets (mock_env out) (secret_name ProviderB) = Some ''kb''" for out
    by (simp add: mock_env_def mock_secrets_def)
  have p: "post (mock_env (Inr r)) [] (request_for ProviderB ''kb'' ''p'') = Inr r" for r
    by (simp add: mock_env_def)
  show ?thesis
    using generate_failures [OF s p, of "\<lparr>status_code = 401, body = None\<rparr>"]
      generate_failures [OF s p, of "\<lparr>status_code = 200, body = None\<rparr>"]
      generate_failures [OF s p, of "\<lparr>status_code = 200, body = Some (claude_body (JStr ''X''))\<rparr>"]
      generate_failures [OF s p, of "\<lparr>status_code = 200, body = Some (chat_body (JStr ''X''))\<rparr>"]
    by (simp add: claude_body_def chat_body_def)
qed

text \<open>
  C5 as it is stated fails twice: a status that is not 2xx and not an error status (here
  300) with a well-shaped body returns the text, and a 200 body with a number where the
  text should be returns the number.
\<close>

theorem generate_failures_counterexample:
  "\<not> (200 \<le> status_code \<lparr>status_code = 300, body = Some (claude_body (JStr ''X''))\<rparr> \<and>
      status_code \<lparr>status_code = 300, body = Some (claude_body (JStr ''X''))\<rparr> < 300) \<and>
   fst (generate ProviderA
          (mock_env (Inr \<lparr>status_code = 300, body = Some (claude_body (JStr ''X''))\<rparr>)) ''p'' [])
     = Inr (JStr ''X'') \<and>
   fst (generate ProviderA
          (mock_env (Inr \<lparr>status_code = 200, body = Some (claude_body (JInt 5))\<rparr>)) ''p'' [])
     = Inr (JInt 5)"
  by (simp add: call_claude_def secret_def requests_post_def mock_env_def mock_secrets_def
      claude_body_def
      read_text_def raise_for_status_def response_json_def claude_path_def Let_def)

subsection \<open>C6: the rendered prompt keeps the inputs and the headers\<close>

text \<open>
  C6. For every project idea and every requirements text (the empty one too), both places
  that fill the template in produce a prompt that contains the two inputs verbatim and the
  seven section headers in their fixed order. It holds for every project idea, so for every
  non-empty one.
\<close>

theorem render_keeps_inputs_and_headers:
  "(\<exists>p. meta_prompt idea req = Inr p \<and> sublist idea p \<and> sublist req p \<and>
        in_order section_headers p) \<and>
   (\<exists>p. compare_prompt idea req = Inr p \<and> sublist idea p \<and> sublist req p \<and>
        in_order section_headers p)"
proof (intro conjI)
  let ?q = "if req \<noteq> [] then req else ''No extra requirements.''"
  let ?p = "template_head @ idea @ template_mid @ ?q @ template_tail"
  have "sublist idea ?p" by (rule sublist_appendI)
  moreover have "sublist req ((template_head @ idea @ template_mid) @ ?q @ template_tail)"
    by (cases "req = []") (simp_all del: append_assoc)
  then have "sublist req ?p" by simp
  moreover have "in_order section_headers ?p" by (rule headers_in_render)
  ultimately show "\<exists>p. meta_prompt idea req = Inr p \<and> sublist idea p \<and> sublist req p \<and>
        in_order section_headers p"
    using meta_prompt_eq [of idea req] by blast
next
  let ?p = "template_head @ idea @ template_mid @ req @ template_tail"
  have "sublist idea ?p" by (rule sublist_appendI)
  moreover have "sublist req ((template_head @ idea @ template_mid) @ req @ template_tail)"
    by (rule sublist_appendI)
  then have "sublist req ?p" by simp
  moreover have "in_order section_headers ?p" by (rule headers_in_render)
  ultimately show "\<exists>p. compare_prompt idea req = Inr p \<and> sublist idea p \<and> sublist req p \<and>
        in_order section_headers p"
    using compare_prompt_eq [of idea req] by blast
qed

subsection \<open>C7: the download offers what the code block shows\<close>

text \<open>
  C7. In every run of the script, every download button comes right after a code block of
  the same slot, and its data is the very value that the code block shows.
\<close>

theorem download_offers_what_is_shown:
  "offered_as_shown None (snd (app E inp))"
proof -
  obtain c es where g: "generate_prompt E inp page_top = (c, page_top @ es)"
    using generate_prompt_shape [of E inp page_top] by blast
  obtain fs where m: "comparison_mode E inp ((page_top @ es) @ compare_top) =
      (Done, ((page_top @ es) @ compare_top) @ fs)"
    using comparison_mode_shape [of E inp "(page_top @ es) @ compare_top"] by blast
  have 1: "offered_as_shown prev es" for prev by (rule oas_generate_prompt [OF g])
  have 2: "offered_as_shown prev fs" for prev by (rule oas_comparison_mode [OF m])
  have "offered_as_shown None (page_top @ es)"
    by (simp add: oas_append oas_page_top 1)
  moreover have "offered_as_shown None (((page_top @ es) @ compare_top) @ fs)"
    by (simp only: oas_append oas_page_top oas_compare_top 1 2 simp_thms)
  ultimately show ?thesis
    unfolding app_def then_run_def g using m by (cases c) simp_all
qed

theorem download_offers_what_is_shown_witness:
  "offered_as_shown None
     (snd (app (mock_routes (ok (claude_body (JStr ''A''))) (ok (chat_body (JStr ''B''))) unauthorized)
        (pressed ''GPT-4o (Best for Creativity)'' ''idea'' ''reqs''))) \<and>
   Code Main (JStr ''B'') \<in>
     set (snd (app (mock_routes (ok (claude_body (JStr ''A''))) (ok (chat_body (JStr ''B''))) unauthorized)
        (pressed ''GPT-4o (Best for Creativity)'' ''idea'' ''reqs''))) \<and>
   Download Main ''Copy Prompt to Clipboard'' (JStr ''B'') ''ai_prompt.md'' \<in>
     set (snd (app (mock_routes (ok (claude_body (JStr ''A''))) (ok (chat_body (JStr ''B''))) unauthorized)
        (pressed ''GPT-4o (Best for Creativity)'' ''idea'' ''reqs'')))"
proof -
  let ?E = "mock_routes (ok (claude_body (JStr ''A''))) (ok (chat_body (JStr ''B''))) unauthorized"
  let ?inp = "pressed ''GPT-4o (Best for Creativity)'' ''idea'' ''reqs''"
  let ?X = "page_top @ [spinner,
        Post (gpt4o_request ''kb'' (template_head @ ''idea'' @ template_mid @ ''reqs'' @ template_tail)),
        Reply (ok (chat_body (JStr ''B''))), Display Main ''Generated Prompt'',
        Code Main (JStr ''B''),
        Download Main ''Copy Prompt to Clipboard'' (JStr ''B'') ''ai_prompt.md'']"
  have g: "generate_prompt ?E ?inp page_top = (Done, ?X)"
    by (rule sample_generate)
  obtain fs where m: "comparison_mode ?E ?inp (?X @ compare_top) = (Done, (?X @ compare_top) @ fs)"
    using comparison_mode_shape [of ?E ?inp "?X @ compare_top"] by blast
  have "app ?E ?inp = (Done, (?X @ compare_top) @ fs)"
    unfolding app_def then_run_def g using m by simp
  then have "Code Main (JStr ''B'') \<in> set (snd (app ?E ?inp))"
    and "Download Main ''Copy Prompt to Clipboard'' (JStr ''B'') ''ai_prompt.md'' \<in>
           set (snd (app ?E ?inp))"
    by simp_all
  then show ?thesis
    using download_offers_what_is_shown [of ?E ?inp] by blast
qed

subsection \<open>C8: an error of the selected client stops the run\<close>

text \<open>
  C8. When the button is pressed with a project idea and the client picked by the model
  name raises \<open>e\<close>, the run writes the error message for \<open>e\<close> and stops there:
  it ends as stopped, the message is its last event, the header of the comparison is never
  drawn and no column shows anything.
\<close>

theorem single_error_halts:
  assumes "button inp" and "project_idea inp \<noteq> []"
      and "meta_prompt (project_idea inp) (requirements inp) = Inr p"
      and "selected_client E (model inp) p (page_top @ [spinner]) = (Inl e, t)"
  shows "app E inp = (Stopped, t @ [Error Main (selected_label (model inp)) (Some e)]) \<and>
         Display Main ''Compare Multiple Models'' \<notin> set (snd (app E inp)) \<and>
         (\<forall>j. slot_view (Col j) (snd (app E inp)) = [])"
proof -
  have g: "generate_prompt E inp page_top =
      (Stopped, t @ [Error Main (selected_label (model inp)) (Some e)])"
    using generate_prompt_eq [OF assms] by simp
  then have a: "app E inp = (Stopped, t @ [Error Main (selected_label (model inp)) (Some e)])"
    by (simp add: app_def then_run_def)
  obtain k rq out where t: "t = (page_top @ [spinner]) @ one_call k rq out"
    using selected_client_trace [of E "model inp" p "page_top @ [spinner]"] assms(4) by auto
  have "Display Main ''Compare Multiple Models'' \<notin> set t"
    by (simp add: t page_top_def spinner_def one_call_def split: option.splits)
  moreover have "slot_view (Col j) t = []" for j
    by (simp add: t slot_view_append slot_view_one_call page_top_def spinner_def
        slot_view_Cons slot_view_Nil)
  ultimately show ?thesis
    by (simp add: a slot_view_append slot_view_Cons slot_view_Nil)
qed

theorem single_error_halts_witness:
  "app (mock_env unauthorized) (pressed ''GPT-4o (Best for Creativity)'' ''idea'' []) =
     (Stopped, page_top @
       [spinner,
        Post (gpt4o_request ''kb''
          (template_head @ ''idea'' @ template_mid @ ''No extra requirements.'' @ template_tail)),
        Reply unauthorized,
        Error Main ''Error with GPT-4o API: ''
          (Some (HTTPError \<lparr>status_code = 401, body = None\<rparr>))]) \<and>
   Display Main ''Compare Multiple Models'' \<notin>
     set (snd (app (mock_env unauthorized) (pressed ''GPT-4o (Best for Creativity)'' ''idea'' [])))"
proof -
  let ?inp = "pressed ''GPT-4o (Best for Creativity)'' ''idea'' []"
  let ?p = "template_head @ ''idea'' @ template_mid @ ''No extra requirements.'' @ template_tail"
  have a: "button ?inp" "project_idea ?inp \<noteq> []"
    by (simp_all add: pressed_def)
  have b: "meta_prompt (project_idea ?inp) (requirements ?inp) = Inr ?p"
    by (simp add: pressed_def meta_prompt_eq)
  have c: "selected_client (mock_env unauthorized) (model ?inp) ?p (page_top @ [spinner]) =
      (Inl (HTTPError \<lparr>status_code = 401, body = None\<rparr>),
       (page_top @ [spinner]) @ [Post (gpt4o_request ''kb'' ?p), Reply unauthorized])"
    by (simp add: pressed_def selected_client_def picks_gpt mock_env_gpt4o)
       (simp add: unauthorized_def read_unauthorized)
  have l: "selected_label (model ?inp) = ''Error with GPT-4o API: ''"
    by (simp add: pressed_def selected_label_def picks_gpt)
  have 1: "app (mock_env unauthorized) ?inp =
      (Stopped, ((page_top @ [spinner]) @ [Post (gpt4o_request ''kb'' ?p), Reply unauthorized]) @
         [Error Main (selected_label (model ?inp))
            (Some (HTTPError \<lparr>status_code = 401, body = None\<rparr>))])"
    and 2: "Display Main ''Compare Multiple Models'' \<notin> set (snd (app (mock_env unauthorized) ?inp))"
    using single_error_halts [OF a b c] by blast+
  show ?thesis
  proof
    show "app (mock_env unauthorized) ?inp =
     (Stopped, page_top @
       [spinner, Post (gpt4o_request ''kb'' ?p), Reply unauthorized,
        Error Main ''Error with GPT-4o API: ''
          (Some (HTTPError \<lparr>status_code = 401, body = None\<rparr>))])"
      using 1 by (simp add: l)
  qed (rule 2)
qed

subsection \<open>C9: the names of the downloaded files\<close>

text \<open>
  C9. Whatever the selected model, the button handler offers at most one download, in the
  main area, named \<open>ai_prompt.md\<close>; the comparison offers at most one per column,
  named \<open>claude_prompt.md\<close>, \<open>gpt_prompt.md\<close> and \<open>deepseek_prompt.md\<close>
  in the columns 0, 1 and 2.
\<close>

theorem download_file_names:
  "(downloads (snd (generate_prompt E inp tr)) = downloads tr \<or>
    downloads (snd (generate_prompt E inp tr)) = downloads tr @ [(Main, ''ai_prompt.md'')]) \<and>
   (\<exists>d1 d2 d3. downloads (snd (comparison_mode E inp tr)) = downloads tr @ d1 @ d2 @ d3 \<and>
      (d1 = [] \<or> d1 = [(Col 0, ''claude_prompt.md'')]) \<and>
      (d2 = [] \<or> d2 = [(Col 1, ''gpt_prompt.md'')]) \<and>
      (d3 = [] \<or> d3 = [(Col 2, ''deepseek_prompt.md'')]))"
proof
  show "downloads (snd (generate_prompt E inp tr)) = downloads tr \<or>
    downloads (snd (generate_prompt E inp tr)) = downloads tr @ [(Main, ''ai_prompt.md'')]"
  proof -
    obtain c es where g: "generate_prompt E inp tr = (c, tr @ es)"
      and es: "es = [] \<or> es = [Error Main ''Please enter a project idea.'' None] \<or>
        (\<exists>r k rq out. es = spinner # one_call k rq out @
                         snd (single_shows (selected_label (model inp)) r))"
      using generate_prompt_shape [of E inp tr] by blast
    from es have "downloads es = [] \<or> downloads es = [(Main, ''ai_prompt.md'')]"
      using downloads_single_shows
      by (elim disjE exE) (simp_all add: downloads_append downloads_one_call spinner_def)
    then show ?thesis by (auto simp: g downloads_append)
  qed
next
  obtain es where m: "comparison_mode E inp tr = (Done, tr @ es)"
    and es: "es = [] \<or>
      (\<exists>r1 r2 r3 k1 k2 k3 q1 q2 q3 o1 o2 o3. es =
        [Display Main ''Comparing models...'', Display (Col 0) ''Claude 3.5 Sonnet''] @
        one_call k1 q1 o1 @
        column_shows 0 ''Claude Error: '' ''claude_prompt.md'' r1 @ [Display (Col 1) ''GPT-4o''] @
        one_call k2 q2 o2 @
        column_shows 1 ''GPT-4o Error: '' ''gpt_prompt.md'' r2 @ [Display (Col 2) ''DeepSeek V3''] @
        one_call k3 q3 o3 @
        column_shows 2 ''DeepSeek Error: '' ''deepseek_prompt.md'' r3)"
    using comparison_mode_shape [of E inp tr] by blast
  from es show "\<exists>d1 d2 d3. downloads (snd (comparison_mode E inp tr)) = downloads tr @ d1 @ d2 @ d3 \<and>
      (d1 = [] \<or> d1 = [(Col 0, ''claude_prompt.md'')]) \<and>
      (d2 = [] \<or> d2 = [(Col 1, ''gpt_prompt.md'')]) \<and>
      (d3 = [] \<or> d3 = [(Col 2, ''deepseek_prompt.md'')])"
  proof
    assume "es = []"
    then show ?thesis using m by simp
  next
    assume "\<exists>r1 r2 r3 k1 k2 k3 q1 q2 q3 o1 o2 o3. es =
        [Display Main ''Comparing models...'', Display (Col 0) ''Claude 3.5 Sonnet''] @
        one_call k1 q1 o1 @
        column_shows 0 ''Claude Error: '' ''claude_prompt.md'' r1 @ [Display (Col 1) ''GPT-4o''] @
        one_call k2 q2 o2 @
        column_shows 1 ''GPT-4o Error: '' ''gpt_prompt.md'' r2 @ [Display (Col 2) ''DeepSeek V3''] @
        one_call k3 q3 o3 @
        column_shows 2 ''DeepSeek Error: '' ''deepseek_prompt.md'' r3"
    then obtain r1 r2 r3 where "downloads es =
        downloads (column_shows 0 ''Claude Error: '' ''claude_prompt.md'' r1) @
        downloads (column_shows 1 ''GPT-4o Error: '' ''gpt_prompt.md'' r2) @
        downloads (column_shows 2 ''DeepSeek Error: '' ''deepseek_prompt.md'' r3)"
      by (auto simp: downloads_append downloads_one_call simp del: One_nat_def)
    then show ?thesis
      using m downloads_column_shows [of 0 "''Claude Error: ''" "''claude_prompt.md''" r1]
        downloads_column_shows [of 1 "''GPT-4o Error: ''" "''gpt_prompt.md''" r2]
        downloads_column_shows [of 2 "''DeepSeek Error: ''" "''deepseek_prompt.md''" r3]
      by (simp add: downloads_append del: One_nat_def) blast
  qed
qed

theorem download_file_names_witness:
  "downloads (snd (generate_prompt
     (mock_routes (ok (claude_body (JStr ''A''))) (ok (chat_body (JStr ''B''))) unauthorized)
     (pressed ''GPT-4o (Best for Creativity)'' ''idea'' ''reqs'') [])) = [(Main, ''ai_prompt.md'')] \<and>
   downloads (snd (comparison_mode
     (mock_routes (ok (claude_body (JStr ''A''))) unauthorized (ok (chat_body (JStr ''C''))))
     (compare_only ''idea'' []) [])) =
     [(Col 0, ''claude_prompt.md''), (Col 2, ''deepseek_prompt.md'')]"
  using download_file_names [of
      "mock_routes (ok (claude_body (JStr ''A''))) (ok (chat_body (JStr ''B''))) unauthorized"
      "pressed ''GPT-4o (Best for Creativity)'' ''idea'' ''reqs''" "[]"]
    download_file_names [of
      "mock_routes (ok (claude_body (JStr ''A''))) unauthorized (ok (chat_body (JStr ''C'')))"
      "compare_only ''idea'' []" "[]"]
  by (simp add: sample_generate sample_comparison spinner_def)

subsection \<open>C10: the comparison calls one provider after the other\<close>

text \<open>
  C10. In the comparison the network events are, in this order, the call to Claude and its
  outcome, the call to GPT-4o and its outcome, the call to DeepSeek and its outcome (a
  client whose secret is missing sends nothing): every call has come back before the next
  one is issued.
\<close>

theorem comparison_calls_sequential:
  assumes "compare inp" and "project_idea inp \<noteq> []"
      and "compare_prompt (project_idea inp) (requirements inp) = Inr p"
  shows "\<exists>o1 o2 o3. net_events (snd (comparison_mode E inp tr)) =
      net_events tr @
      one_call (secrets E ''ANTHROPIC_API_KEY'') (\<lambda>k. claude_request k p) o1 @
      one_call (secrets E ''OPENAI_API_KEY'') (\<lambda>k. gpt4o_request k p) o2 @
      one_call (secrets E ''DEEPSEEK_API_KEY'') (\<lambda>k. deepseek_request k p) o3"
proof -
  obtain r1 r2 r3 o1 o2 o3 where "comparison_mode E inp tr =
      (Done, tr @ [Display Main ''Comparing models...'', Display (Col 0) ''Claude 3.5 Sonnet''] @
        one_call (secrets E ''ANTHROPIC_API_KEY'') (\<lambda>k. claude_request k p) o1 @
        column_shows 0 ''Claude Error: '' ''claude_prompt.md'' r1 @ [Display (Col 1) ''GPT-4o''] @
        one_call (secrets E ''OPENAI_API_KEY'') (\<lambda>k. gpt4o_request k p) o2 @
        column_shows 1 ''GPT-4o Error: '' ''gpt_prompt.md'' r2 @ [Display (Col 2) ''DeepSeek V3''] @
        one_call (secrets E ''DEEPSEEK_API_KEY'') (\<lambda>k. deepseek_request k p) o3 @
        column_shows 2 ''DeepSeek Error: '' ''deepseek_prompt.md'' r3)"
    using comparison_mode_trace [OF assms] by blast
  then have "net_events (snd (comparison_mode E inp tr)) =
      net_events tr @
      one_call (secrets E ''ANTHROPIC_API_KEY'') (\<lambda>k. claude_request k p) o1 @
      one_call (secrets E ''OPENAI_API_KEY'') (\<lambda>k. gpt4o_request k p) o2 @
      one_call (secrets E ''DEEPSEEK_API_KEY'') (\<lambda>k. deepseek_request k p) o3"
    by (simp add: net_events_append net_events_one_call net_events_column_shows
        net_events_Cons net_events_Nil del: One_nat_def)
  then show ?thesis by blast
qed

theorem comparison_calls_sequential_witness:
  "net_events (snd (comparison_mode
     (mock_routes (ok (claude_body (JStr ''A''))) unauthorized (ok (chat_body (JStr ''C''))))
     (compare_only ''idea'' []) [])) =
   [Post (claude_request ''ka'' (template_head @ ''idea'' @ template_mid @ template_tail)),
    Reply (ok (claude_body (JStr ''A''))),
    Post (gpt4o_request ''kb'' (template_head @ ''idea'' @ template_mid @ template_tail)),
    Reply unauthorized,
    Post (deepseek_request ''kc'' (template_head @ ''idea'' @ template_mid @ template_tail)),
    Reply (ok (chat_body (JStr ''C'')))]"
proof -
  let ?E = "mock_routes (ok (claude_body (JStr ''A''))) unauthorized (ok (chat_body (JStr ''C'')))"
  let ?p = "template_head @ ''idea'' @ template_mid @ template_tail"
  have a: "compare (compare_only ''idea'' [])" "project_idea (compare_only ''idea'' []) \<noteq> []"
    by (simp_all add: compare_only_def)
  have b: "compare_prompt (project_idea (compare_only ''idea'' []))
             (requirements (compare_only ''idea'' [])) = Inr ?p"
    by (simp add: compare_only_def compare_prompt_eq)
  show ?thesis
    using comparison_calls_sequential [OF a b, of ?E "[]"]
    by (simp add: sample_comparison net_events_Cons net_events_Nil)
qed

end
